theory Spec2Isabelle
  imports Main "HOL-Library.Word" "HOL-Library.Sublist"
begin

section \<open>Checksum-verified file synchronisation (juniper\_junos\_file)\<close>

text \<open>
  The module \<^verbatim>\<open>library/juniper_junos_file.py\<close> copies one file between the controller
  and a Junos device, comparing MD5 checksums before and after the copy. This theory
  embeds \<^verbatim>\<open>_hashfile\<close>, \<^verbatim>\<open>local_md5\<close>, \<^verbatim>\<open>remote_md5\<close> and the decision logic of
  \<^verbatim>\<open>main\<close>. Logging calls have no influence on control flow or results and are left
  out. Collaborators that live outside the module (\<^verbatim>\<open>hashlib.md5\<close>, the local file
  system, the device RPC and the SCP session) are parameters of the model.
\<close>

subsection \<open>Python values\<close>

type_synonym bytes = "8 word list"

text \<open>A Python exception, reduced to what the module inspects: its text
  (\<^verbatim>\<open>format(err)\<close>, \<^verbatim>\<open>err.message\<close>).\<close>

datatype exn = Exn (message: string)

text \<open>\<^verbatim>\<open>needle in haystack\<close> on strings.\<close>

fun str_in :: "string \<Rightarrow> string \<Rightarrow> bool" where
  "str_in needle [] = (needle = [])"
| "str_in needle (c # cs) = (prefix needle (c # cs) \<or> str_in needle cs)"

text \<open>\<^verbatim>\<open>str.strip()\<close>: leading and trailing ASCII whitespace removed.\<close>

definition is_space :: "char \<Rightarrow> bool" where
  "is_space c = (c \<in> set [CHR '' '', CHR 0x09, CHR 0x0A, CHR 0x0B, CHR 0x0C, CHR 0x0D])"

definition strip :: "string \<Rightarrow> string" where
  "strip s = rev (dropWhile is_space (rev (dropWhile is_space s)))"

subsection \<open>The hash object and \<^verbatim>\<open>_hashfile\<close>\<close>

text \<open>
  A \<^verbatim>\<open>hashlib\<close> hash object remembers what it was fed: \<^verbatim>\<open>update\<close> calls accumulate,
  and \<^verbatim>\<open>hexdigest\<close> is the digest of the concatenation of everything fed so far. The
  digest function itself (\<open>md5\<close>, from byte strings to hex strings) is a parameter.
  The record keeps the individual \<^verbatim>\<open>update\<close> arguments so that the block structure of
  the reads stays visible.
\<close>

record hasher =
  updates :: "bytes list"

definition new_hasher :: hasher where
  "new_hasher = \<lparr>updates = []\<rparr>"

definition update :: "hasher \<Rightarrow> bytes \<Rightarrow> hasher" where
  "update h buf = h\<lparr>updates := updates h @ [buf]\<rparr>"

definition hexdigest :: "(bytes \<Rightarrow> string) \<Rightarrow> hasher \<Rightarrow> string" where
  "hexdigest md5 h = md5 (concat (updates h))"

text \<open>
  A file object opened for reading is the list of bytes not yet consumed.
  \<^verbatim>\<open>afile.read(n)\<close> returns up to \<open>n\<close> bytes and advances; a negative \<open>n\<close> reads
  everything that is left. The result is the buffer and the advanced file.
\<close>

definition read_file :: "bytes \<Rightarrow> int \<Rightarrow> bytes \<times> bytes" where
  "read_file afile n =
     (if n < 0 then (afile, []) else (take (nat n) afile, drop (nat n) afile))"

text \<open>The \<^verbatim>\<open>while len(buf) > 0\<close> loop of \<^verbatim>\<open>_hashfile\<close>.\<close>

function hashfile_while :: "int \<Rightarrow> bytes \<Rightarrow> hasher \<Rightarrow> bytes \<Rightarrow> hasher" where
  "hashfile_while blocksize afile h buf =
     (if length buf > 0
      then hashfile_while blocksize (snd (read_file afile blocksize)) (update h buf)
             (fst (read_file afile blocksize))
      else h)"
  by pat_completeness auto
termination
  by (relation "measure (\<lambda>(blocksize, afile, h, buf). length afile + length buf)")
     (auto simp: read_file_def min_def)

text \<open>\<^verbatim>\<open>_hashfile(afile, hasher, blocksize)\<close>; the default block size is 65536. The
  result is the returned hex digest together with the hash object as the calls left it.\<close>

definition hashfile :: "(bytes \<Rightarrow> string) \<Rightarrow> bytes \<Rightarrow> hasher \<Rightarrow> int \<Rightarrow> string \<times> hasher" where
  "hashfile md5 afile h blocksize =
     (let buf = fst (read_file afile blocksize);
          afile' = snd (read_file afile blocksize);
          h' = hashfile_while blocksize afile' h buf
      in (hexdigest md5 h', h'))"

definition default_blocksize :: int where
  "default_blocksize = 65536"

text \<open>The specification's view of the streaming: the contents cut into consecutive
  blocks of \<open>n\<close> bytes, the last one possibly shorter, none empty.\<close>

function blocks_of :: "nat \<Rightarrow> 'a list \<Rightarrow> 'a list list" where
  "blocks_of n xs = (if xs = [] \<or> n = 0 then [] else take n xs # blocks_of n (drop n xs))"
  by pat_completeness auto
termination
  by (relation "measure (\<lambda>(n, xs). length xs)") auto

subsection \<open>Module arguments, results and collaborators\<close>

text \<open>The argument \<^verbatim>\<open>type\<close> is declared with \<^verbatim>\<open>choices=['put', 'get']\<close>.\<close>

datatype transfer_type = Put | Get

record params =
  local_dir :: string
  remote_dir :: string
  file_param :: string
  type_param :: transfer_type

text \<open>\<^verbatim>\<open>results = {'msg': '', 'changed': False, 'failed': False}\<close>\<close>

record results =
  msg :: string
  changed :: bool
  failed :: bool

text \<open>
  How an invocation ends: \<^verbatim>\<open>exit_json(**results)\<close>, \<^verbatim>\<open>fail_json(msg=status)\<close>, or an
  exception that leaves \<^verbatim>\<open>main\<close> uncaught.
\<close>

datatype outcome = ExitJson results | FailJson string | Raised exn

text \<open>
  The collaborators, over a state \<open>'w\<close> of the outside world (both file systems):
  \<^item> \<open>hashlib_md5\<close>: the hex digest computed by a \<^verbatim>\<open>hashlib.md5()\<close> object;
  \<^item> \<open>open_rb\<close>: \<^verbatim>\<open>open(package, 'rb')\<close> and the reads on it: the contents, or the
    exception raised (both happen inside the same \<^verbatim>\<open>try\<close>);
  \<^item> \<open>get_checksum_information\<close>: the RPC followed by \<^verbatim>\<open>findtext('.//checksum')\<close>:
    an exception, or the text found (\<open>None\<close> when the reply has no such element);
  \<^item> \<open>scp_open\<close>, \<open>scp_close\<close>: \<^verbatim>\<open>SCP.__enter__\<close> and \<^verbatim>\<open>SCP.__exit__\<close>;
  \<^item> \<open>scp_put\<close>, \<open>scp_get\<close>: the copy; it may raise and may change the world either way.
\<close>

record 'w env =
  hashlib_md5 :: "bytes \<Rightarrow> string"
  open_rb :: "'w \<Rightarrow> string \<Rightarrow> exn + bytes"
  get_checksum_information :: "'w \<Rightarrow> string \<Rightarrow> exn + string option"
  scp_open :: "'w \<Rightarrow> exn option \<times> 'w"
  scp_put :: "'w \<Rightarrow> string \<Rightarrow> string \<Rightarrow> exn option \<times> 'w"
  scp_get :: "'w \<Rightarrow> string \<Rightarrow> string \<Rightarrow> exn option \<times> 'w"
  scp_close :: "'w \<Rightarrow> exn option \<times> 'w"

text \<open>What an invocation does to its collaborators, in order, with each call's result.\<close>

datatype event =
    LocalMd5 string "exn + string"
  | RemoteMd5 string "exn + string"
  | ScpOpen "exn option"
  | ScpPut string string "exn option"
  | ScpGet string string "exn option"
  | ScpClose "exn option"

subsection \<open>\<^verbatim>\<open>local_md5\<close> and \<^verbatim>\<open>remote_md5\<close>\<close>

definition no_file :: string where
  "no_file = ''no_file''"

text \<open>
  \<^verbatim>\<open>local_md5(junos_module, package)\<close>: the \<^verbatim>\<open>try\<close> block opens and hashes the file;
  the handler turns an exception into the sentinel when its text contains
  \<^verbatim>\<open>No such file\<close> and the module runs with \<^verbatim>\<open>type == "get"\<close>, and raises it again
  otherwise.
\<close>

definition local_md5 :: "'w env \<Rightarrow> params \<Rightarrow> 'w \<Rightarrow> string \<Rightarrow> exn + string" where
  "local_md5 E p w package =
     (case open_rb E w package of
        Inr afile \<Rightarrow> Inr (fst (hashfile (hashlib_md5 E) afile new_hasher default_blocksize))
      | Inl err \<Rightarrow>
          if str_in ''No such file'' (message err) \<and> type_param p = Get
          then Inr no_file
          else Inl err)"

text \<open>\<^verbatim>\<open>None.strip()\<close> raises inside the \<^verbatim>\<open>try\<close> block.\<close>

definition none_strip_error :: exn where
  "none_strip_error =
     Exn ([CHR 0x27] @ ''NoneType'' @ [CHR 0x27] @ '' object has no attribute ''
          @ [CHR 0x27] @ ''strip'' @ [CHR 0x27])"

text \<open>
  \<^verbatim>\<open>remote_md5(junos_module, remote_file)\<close>: the \<^verbatim>\<open>try\<close> block calls the RPC and strips
  the text of the checksum element; the handler looks at \<^verbatim>\<open>err.message\<close> (the text of
  the exception) for \<^verbatim>\<open>No such file or directory\<close> and at \<^verbatim>\<open>type == "put"\<close>.
\<close>

definition remote_md5 :: "'w env \<Rightarrow> params \<Rightarrow> 'w \<Rightarrow> string \<Rightarrow> exn + string" where
  "remote_md5 E p w remote_file =
     (let tried =
        (case get_checksum_information E w remote_file of
           Inl err \<Rightarrow> Inl err
         | Inr None \<Rightarrow> Inl none_strip_error
         | Inr (Some text) \<Rightarrow> Inr (strip text))
      in case tried of
           Inr checksum \<Rightarrow> Inr checksum
         | Inl err \<Rightarrow>
             if str_in ''No such file or directory'' (message err) \<and> type_param p = Put
             then Inr no_file
             else Inl err)"

subsection \<open>The \<^verbatim>\<open>with SCP(...) as scp1:\<close> block\<close>

text \<open>
  Python's \<^verbatim>\<open>with\<close>: \<^verbatim>\<open>__enter__\<close> runs first; if it raises, the body and
  \<^verbatim>\<open>__exit__\<close> do not run. Otherwise the body runs and \<^verbatim>\<open>__exit__\<close> runs after it,
  whether the body raised or not. \<^verbatim>\<open>SCP.__exit__\<close> returns nothing, so an exception of
  the body propagates, unless \<^verbatim>\<open>__exit__\<close> itself raises, which then replaces it.
\<close>

definition with_SCP ::
  "'w env \<Rightarrow> ('w \<Rightarrow> exn option \<times> event list \<times> 'w) \<Rightarrow> 'w \<Rightarrow> exn option \<times> event list \<times> 'w" where
  "with_SCP E body w =
     (case scp_open E w of
        (Some e, w1) \<Rightarrow> (Some e, [ScpOpen (Some e)], w1)
      | (None, w1) \<Rightarrow>
          (case body w1 of (r, evs, w2) \<Rightarrow>
             (case scp_close E w2 of
                (Some e', w3) \<Rightarrow> (Some e', [ScpOpen None] @ evs @ [ScpClose (Some e')], w3)
              | (None, w3) \<Rightarrow> (r, [ScpOpen None] @ evs @ [ScpClose None], w3))))"

definition put_body :: "'w env \<Rightarrow> string \<Rightarrow> string \<Rightarrow> 'w \<Rightarrow> exn option \<times> event list \<times> 'w" where
  "put_body E local_file remote_path w =
     (case scp_put E w local_file remote_path of (r, w') \<Rightarrow> (r, [ScpPut local_file remote_path r], w'))"

definition get_body :: "'w env \<Rightarrow> string \<Rightarrow> string \<Rightarrow> 'w \<Rightarrow> exn option \<times> event list \<times> 'w" where
  "get_body E remote_file local_file w =
     (case scp_get E w remote_file local_file of (r, w') \<Rightarrow> (r, [ScpGet remote_file local_file r], w'))"

subsection \<open>\<^verbatim>\<open>main\<close>\<close>

definition transfer_failed :: "string \<Rightarrow> string \<Rightarrow> string" where
  "transfer_failed local_checksum remote_checksum =
     ''Transfer failed (different MD5 between local and remote) '' @ local_checksum
       @ '' | '' @ remote_checksum"

definition already_present :: string where
  "already_present = ''File already present, skipping the scp''"

definition main_put :: "'w env \<Rightarrow> params \<Rightarrow> 'w \<Rightarrow> outcome \<times> event list \<times> 'w" where
  "main_put E p w =
     (let remote_path = remote_dir p;
          local_file = local_dir p @ ''/'' @ file_param p;
          remote_file = remote_dir p @ ''/'' @ file_param p;
          l = local_md5 E p w local_file;
          t1 = [LocalMd5 local_file l]
      in case l of
           Inl err \<Rightarrow> (Raised err, t1, w)
         | Inr local_checksum \<Rightarrow>
             (let r = remote_md5 E p w remote_file;
                  t2 = t1 @ [RemoteMd5 remote_file r]
              in case r of
                   Inl err \<Rightarrow> (Raised err, t2, w)
                 | Inr remote_checksum \<Rightarrow>
                     if remote_checksum = no_file \<or> remote_checksum \<noteq> local_checksum
                     then
                       (case with_SCP E (put_body E local_file remote_path) w of
                          (Some err, evs, w') \<Rightarrow> (Raised err, t2 @ evs, w')
                        | (None, evs, w') \<Rightarrow>
                            (let r' = remote_md5 E p w' remote_file;
                                 t3 = t2 @ evs @ [RemoteMd5 remote_file r']
                             in case r' of
                                  Inl err \<Rightarrow> (Raised err, t3, w')
                                | Inr remote_checksum' \<Rightarrow>
                                    if remote_checksum' \<noteq> local_checksum
                                    then (FailJson (transfer_failed local_checksum remote_checksum'),
                                          t3, w')
                                    else (ExitJson \<lparr>msg = ''File pushed OK'', changed = True,
                                                    failed = False\<rparr>, t3, w')))
                     else (ExitJson \<lparr>msg = already_present, changed = False, failed = False\<rparr>,
                           t2, w)))"

definition main_get :: "'w env \<Rightarrow> params \<Rightarrow> 'w \<Rightarrow> outcome \<times> event list \<times> 'w" where
  "main_get E p w =
     (let local_file = local_dir p @ ''/'' @ file_param p;
          remote_file = remote_dir p @ ''/'' @ file_param p;
          r = remote_md5 E p w remote_file;
          t1 = [RemoteMd5 remote_file r]
      in case r of
           Inl err \<Rightarrow> (Raised err, t1, w)
         | Inr remote_checksum \<Rightarrow>
             (let l = local_md5 E p w local_file;
                  t2 = t1 @ [LocalMd5 local_file l]
              in case l of
                   Inl err \<Rightarrow> (Raised err, t2, w)
                 | Inr local_checksum \<Rightarrow>
                     if local_checksum = no_file \<or> remote_checksum \<noteq> local_checksum
                     then
                       (case with_SCP E (get_body E remote_file local_file) w of
                          (Some err, evs, w') \<Rightarrow> (Raised err, t2 @ evs, w')
                        | (None, evs, w') \<Rightarrow>
                            (let l' = local_md5 E p w' local_file;
                                 t3 = t2 @ evs @ [LocalMd5 local_file l']
                             in case l' of
                                  Inl err \<Rightarrow> (Raised err, t3, w')
                                | Inr local_checksum' \<Rightarrow>
                                    if remote_checksum \<noteq> local_checksum'
                                    then (FailJson (transfer_failed local_checksum' remote_checksum),
                                          t3, w')
                                    else (ExitJson \<lparr>msg = ''File retrieved OK'', changed = True,
                                                    failed = False\<rparr>, t3, w')))
                     else (ExitJson \<lparr>msg = already_present, changed = False, failed = False\<rparr>,
                           t2, w)))"

text \<open>\<^verbatim>\<open>main\<close>: the \<^verbatim>\<open>put\<close> block, then the \<^verbatim>\<open>get\<close> block; exactly one of the two
  conditions holds.\<close>

definition main :: "'w env \<Rightarrow> params \<Rightarrow> 'w \<Rightarrow> outcome \<times> event list \<times> 'w" where
  "main E p w = (if type_param p = Put then main_put E p w else main_get E p w)"

subsection \<open>Vocabulary for the statements\<close>

definition local_file_of :: "params \<Rightarrow> string" where
  "local_file_of p = local_dir p @ ''/'' @ file_param p"

definition remote_file_of :: "params \<Rightarrow> string" where
  "remote_file_of p = remote_dir p @ ''/'' @ file_param p"

text \<open>The checksum of the side the file is copied from, and of the side it is copied
  to, as \<^verbatim>\<open>main\<close> obtains them in world \<open>w\<close>.\<close>

definition source_checksum :: "'w env \<Rightarrow> params \<Rightarrow> 'w \<Rightarrow> exn + string" where
  "source_checksum E p w =
     (case type_param p of
        Put \<Rightarrow> local_md5 E p w (local_file_of p)
      | Get \<Rightarrow> remote_md5 E p w (remote_file_of p))"

definition destination_checksum :: "'w env \<Rightarrow> params \<Rightarrow> 'w \<Rightarrow> exn + string" where
  "destination_checksum E p w =
     (case type_param p of
        Put \<Rightarrow> remote_md5 E p w (remote_file_of p)
      | Get \<Rightarrow> local_md5 E p w (local_file_of p))"

text \<open>The event of computing the destination's checksum, and of the copy.\<close>

definition destination_event :: "params \<Rightarrow> exn + string \<Rightarrow> event" where
  "destination_event p c =
     (case type_param p of
        Put \<Rightarrow> RemoteMd5 (remote_file_of p) c
      | Get \<Rightarrow> LocalMd5 (local_file_of p) c)"

definition source_event :: "params \<Rightarrow> exn + string \<Rightarrow> event" where
  "source_event p c =
     (case type_param p of
        Put \<Rightarrow> LocalMd5 (local_file_of p) c
      | Get \<Rightarrow> RemoteMd5 (remote_file_of p) c)"

definition copy_event :: "params \<Rightarrow> exn option \<Rightarrow> event" where
  "copy_event p r =
     (case type_param p of
        Put \<Rightarrow> ScpPut (local_file_of p) (remote_dir p) r
      | Get \<Rightarrow> ScpGet (remote_file_of p) (local_file_of p) r)"

definition copy_call :: "'w env \<Rightarrow> params \<Rightarrow> 'w \<Rightarrow> exn option \<times> 'w" where
  "copy_call E p w =
     (case type_param p of
        Put \<Rightarrow> scp_put E w (local_file_of p) (remote_dir p)
      | Get \<Rightarrow> scp_get E w (remote_file_of p) (local_file_of p))"

fun is_scp_event :: "event \<Rightarrow> bool" where
  "is_scp_event (LocalMd5 _ _) = False"
| "is_scp_event (RemoteMd5 _ _) = False"
| "is_scp_event _ = True"

fun is_copy :: "event \<Rightarrow> bool" where
  "is_copy (ScpPut _ _ _) = True"
| "is_copy (ScpGet _ _ _) = True"
| "is_copy _ = False"

definition transfer_attempted :: "event list \<Rightarrow> bool" where
  "transfer_attempted tr = (filter is_scp_event tr \<noteq> [])"

definition outcome_changed :: "outcome \<Rightarrow> bool" where
  "outcome_changed out = (case out of ExitJson r \<Rightarrow> changed r | _ \<Rightarrow> False)"

definition skip_results :: results where
  "skip_results = \<lparr>msg = ''File already present, skipping the scp'', changed = False, failed = False\<rparr>"

definition pushed_results :: results where
  "pushed_results = \<lparr>msg = ''File pushed OK'', changed = True, failed = False\<rparr>"

definition retrieved_results :: results where
  "retrieved_results = \<lparr>msg = ''File retrieved OK'', changed = True, failed = False\<rparr>"

text \<open>The body of the \<^verbatim>\<open>with\<close> block, the failure message, the success record and
  the final comparison, for either direction.\<close>

definition copy_body :: "'w env \<Rightarrow> params \<Rightarrow> 'w \<Rightarrow> exn option \<times> event list \<times> 'w" where
  "copy_body E p =
     (case type_param p of
        Put \<Rightarrow> put_body E (local_file_of p) (remote_dir p)
      | Get \<Rightarrow> get_body E (remote_file_of p) (local_file_of p))"

definition failure_message :: "params \<Rightarrow> string \<Rightarrow> string \<Rightarrow> string" where
  "failure_message p s d =
     (case type_param p of Put \<Rightarrow> transfer_failed s d | Get \<Rightarrow> transfer_failed d s)"

definition success_results :: "params \<Rightarrow> results" where
  "success_results p = (case type_param p of Put \<Rightarrow> pushed_results | Get \<Rightarrow> retrieved_results)"

definition verdict :: "params \<Rightarrow> string \<Rightarrow> exn + string \<Rightarrow> outcome" where
  "verdict p s c =
     (case c of
        Inl err \<Rightarrow> Raised err
      | Inr d \<Rightarrow> if d \<noteq> s then FailJson (failure_message p s d) else ExitJson (success_results p))"

text \<open>The SCP events of a run form a scoped session: none at all, a failed
  \<^verbatim>\<open>__enter__\<close> alone, or a successful \<^verbatim>\<open>__enter__\<close> followed by the copy and then
  \<^verbatim>\<open>__exit__\<close>.\<close>

fun session_scoped :: "event list \<Rightarrow> bool" where
  "session_scoped [] = True"
| "session_scoped [ScpOpen (Some e)] = True"
| "session_scoped [ScpOpen None, ev, ScpClose c] = is_copy ev"
| "session_scoped _ = False"

subsection \<open>A small concrete world\<close>

text \<open>
  An executable instance of the collaborators, used to run the model on concrete inputs.
  Exceptions of the operating system print as Python prints an \<^verbatim>\<open>IOError\<close> with a file
  name: \<^verbatim>\<open>[Errno 2] No such file or directory: '/a/b'\<close>.
\<close>

definition os_error :: "string \<Rightarrow> string \<Rightarrow> string \<Rightarrow> exn" where
  "os_error errno strerror filename =
     Exn (''[Errno '' @ errno @ ''] '' @ strerror @ '': '' @ [CHR 0x27] @ filename @ [CHR 0x27])"

definition file_not_found :: "string \<Rightarrow> exn" where
  "file_not_found filename = os_error ''2'' ''No such file or directory'' filename"

definition permission_denied :: "string \<Rightarrow> exn" where
  "permission_denied filename = os_error ''13'' ''Permission denied'' filename"

text \<open>The device's error for a path it does not have.\<close>

definition rpc_no_such_file :: "string \<Rightarrow> exn" where
  "rpc_no_such_file path = Exn (path @ '': No such file or directory'')"

record world =
  local_fs :: "(string \<times> bytes) list"
  unreadable :: "string list"
  remote_fs :: "(string \<times> bytes) list"

text \<open>A stand-in for the digest: 32 lowercase hex characters, the last two taken from
  the sum of the bytes. It only instantiates the \<open>hashlib_md5\<close> parameter.\<close>

definition hex_digit :: "nat \<Rightarrow> char" where
  "hex_digit n = ''0123456789abcdef'' ! (n mod 16)"

definition sim_digest :: "bytes \<Rightarrow> string" where
  "sim_digest bs =
     ''000000000000000000000000000000'' @ [hex_digit (sum_list (map unat bs) div 16),
                               hex_digit (sum_list (map unat bs))]"

definition basename :: "string \<Rightarrow> string" where
  "basename path = rev (takeWhile (\<lambda>c. c \<noteq> CHR ''/'') (rev path))"

definition sim_open_rb :: "world \<Rightarrow> string \<Rightarrow> exn + bytes" where
  "sim_open_rb w path =
     (if path \<in> set (unreadable w) then Inl (permission_denied path)
      else case map_of (local_fs w) path of
             None \<Rightarrow> Inl (file_not_found path)
           | Some bs \<Rightarrow> Inr bs)"

definition sim_checksum :: "world \<Rightarrow> string \<Rightarrow> exn + string option" where
  "sim_checksum w path =
     (case map_of (remote_fs w) path of
        None \<Rightarrow> Inl (rpc_no_such_file path)
      | Some bs \<Rightarrow> Inr (Some (sim_digest bs @ [CHR 0x0A])))"

text \<open>The transport writes \<open>garble bs\<close> where the source holds \<open>bs\<close> (the identity for a
  faithful copy), or raises \<open>fault\<close> before writing anything.\<close>

definition sim_put :: "(bytes \<Rightarrow> bytes) \<Rightarrow> exn option \<Rightarrow> world \<Rightarrow> string \<Rightarrow> string \<Rightarrow> exn option \<times> world" where
  "sim_put garble fault w local_file remote_path =
     (case fault of
        Some e \<Rightarrow> (Some e, w)
      | None \<Rightarrow>
          (case sim_open_rb w local_file of
             Inl e \<Rightarrow> (Some e, w)
           | Inr bs \<Rightarrow>
               (None, w\<lparr>remote_fs := (remote_path @ ''/'' @ basename local_file, garble bs)
                                      # remote_fs w\<rparr>)))"

definition sim_get :: "(bytes \<Rightarrow> bytes) \<Rightarrow> exn option \<Rightarrow> world \<Rightarrow> string \<Rightarrow> string \<Rightarrow> exn option \<times> world" where
  "sim_get garble fault w remote_file local_file =
     (case fault of
        Some e \<Rightarrow> (Some e, w)
      | None \<Rightarrow>
          (case map_of (remote_fs w) remote_file of
             None \<Rightarrow> (Some (rpc_no_such_file remote_file), w)
           | Some bs \<Rightarrow> (None, w\<lparr>local_fs := (local_file, garble bs) # local_fs w\<rparr>)))"

definition sim_env :: "(bytes \<Rightarrow> bytes) \<Rightarrow> exn option \<Rightarrow> world env" where
  "sim_env garble fault =
     \<lparr>hashlib_md5 = sim_digest,
      open_rb = sim_open_rb,
      get_checksum_information = sim_checksum,
      scp_open = Pair None,
      scp_put = sim_put garble fault,
      scp_get = sim_get garble fault,
      scp_close = Pair None\<rparr>"

definition faithful :: "bytes \<Rightarrow> bytes" where
  "faithful bs = bs"

definition truncating :: "bytes \<Rightarrow> bytes" where
  "truncating bs = butlast bs"

definition put_params :: params where
  "put_params = \<lparr>local_dir = ''/srv'', remote_dir = ''/var/tmp'', file_param = ''a.tgz'',
                  type_param = Put\<rparr>"

definition get_params :: params where
  "get_params = \<lparr>local_dir = ''/srv'', remote_dir = ''/var/tmp'', file_param = ''a.tgz'',
                  type_param = Get\<rparr>"

definition odd_params :: params where
  "odd_params = \<lparr>local_dir = ''/tmp/No such file'', remote_dir = ''/var/tmp'',
                  file_param = ''x'', type_param = Get\<rparr>"

text \<open>The file exists on the controller only.\<close>

definition local_only :: world where
  "local_only = \<lparr>local_fs = [(''/srv/a.tgz'', [1, 2, 3])], unreadable = [], remote_fs = []\<rparr>"

text \<open>The file exists on the device only.\<close>

definition remote_only :: world where
  "remote_only = \<lparr>local_fs = [], unreadable = [], remote_fs = [(''/var/tmp/a.tgz'', [1, 2, 3])]\<rparr>"

text \<open>Both sides hold the same contents.\<close>

definition in_sync :: world where
  "in_sync = \<lparr>local_fs = [(''/srv/a.tgz'', [1, 2, 3])], unreadable = [],
              remote_fs = [(''/var/tmp/a.tgz'', [1, 2, 3])]\<rparr>"

text \<open>The device holds an older version of the file.\<close>

definition stale_remote :: world where
  "stale_remote = \<lparr>local_fs = [(''/srv/a.tgz'', [1, 2, 3])], unreadable = [],
                   remote_fs = [(''/var/tmp/a.tgz'', [9])]\<rparr>"

text \<open>A local file that exists but cannot be read, in a directory whose name contains
  the words the module looks for.\<close>

definition unreadable_local :: world where
  "unreadable_local = \<lparr>local_fs = [(''/tmp/No such file/x'', [7])],
                       unreadable = [''/tmp/No such file/x''],
                       remote_fs = [(''/var/tmp/x'', [7])]\<rparr>"

declare hashfile_while.simps [simp del]
declare blocks_of.simps [simp del]

subsection \<open>Properties of the streaming loop\<close>

lemma concat_blocks_of: "0 < n \<Longrightarrow> concat (blocks_of n xs) = xs"
proof (induction n xs rule: blocks_of.induct)
  case (1 n xs)
  then show ?case
    by (cases "xs = []") (simp_all add: blocks_of.simps [of n xs] blocks_of.simps [of n "[]"])
qed

lemma blocks_of_nonempty: "b \<in> set (blocks_of n xs) \<Longrightarrow> 0 < length b \<and> length b \<le> n"
proof (induction n xs rule: blocks_of.induct)
  case (1 n xs)
  show ?case
  proof (cases "xs = [] \<or> n = 0")
    case True
    with "1.prems" show ?thesis by (simp add: blocks_of.simps [of n xs])
  next
    case False
    with "1.prems" have "b = take n xs \<or> b \<in> set (blocks_of n (drop n xs))"
      by (simp add: blocks_of.simps [of n xs])
    then show ?thesis
    proof
      assume "b = take n xs"
      with False show ?thesis by simp
    next
      assume "b \<in> set (blocks_of n (drop n xs))"
      with "1.IH" False show ?thesis by simp
    qed
  qed
qed

lemma blocks_of_full: "b \<in> set (butlast (blocks_of n xs)) \<Longrightarrow> length b = n"
proof (induction n xs rule: blocks_of.induct)
  case (1 n xs)
  show ?case
  proof (cases "xs = [] \<or> n = 0")
    case True
    with "1.prems" show ?thesis by (simp add: blocks_of.simps [of n xs])
  next
    case False
    show ?thesis
    proof (cases "blocks_of n (drop n xs) = []")
      case True
      with "1.prems" False show ?thesis by (simp add: blocks_of.simps [of n xs])
    next
      case rest: False
      then have "drop n xs \<noteq> []"
        by (auto simp: blocks_of.simps [of n "drop n xs"])
      then have len: "length (take n xs) = n" by simp
      from "1.prems" False rest
      have "b = take n xs \<or> b \<in> set (butlast (blocks_of n (drop n xs)))"
        by (simp add: blocks_of.simps [of n xs])
      then show ?thesis
      proof
        assume "b = take n xs"
        with len show ?thesis by simp
      next
        assume "b \<in> set (butlast (blocks_of n (drop n xs)))"
        with "1.IH" False show ?thesis by simp
      qed
    qed
  qed
qed

lemma hashfile_while_blocks:
  "0 < n \<Longrightarrow>
   updates (hashfile_while (int n) (drop n xs) h (take n xs)) = updates h @ blocks_of n xs"
proof (induction n xs arbitrary: h rule: blocks_of.induct)
  case (1 n xs)
  show ?case
  proof (cases "xs = []")
    case True
    then show ?thesis
      by (simp add: hashfile_while.simps [of _ "[]" h "[]"] blocks_of.simps [of n "[]"])
  next
    case False
    with "1.prems" have ne: "0 < length (take n xs)" by simp
    have step: "hashfile_while (int n) (drop n xs) h (take n xs) =
        hashfile_while (int n) (drop n (drop n xs)) (update h (take n xs)) (take n (drop n xs))"
      using ne by (subst hashfile_while.simps) (simp add: read_file_def)
    have "updates (hashfile_while (int n) (drop n (drop n xs)) (update h (take n xs))
            (take n (drop n xs))) = updates (update h (take n xs)) @ blocks_of n (drop n xs)"
      using "1.IH" [of "update h (take n xs)"] False "1.prems" by simp
    with step False "1.prems" show ?thesis
      by (simp add: update_def blocks_of.simps [of n xs])
  qed
qed

lemma hashfile_blocks:
  "0 < n \<Longrightarrow> updates (snd (hashfile md5 contents new_hasher (int n))) = blocks_of n contents"
  by (simp add: hashfile_def Let_def read_file_def hashfile_while_blocks new_hasher_def)

lemma hashfile_digest:
  "0 < n \<Longrightarrow> fst (hashfile md5 contents new_hasher (int n)) = md5 contents"
proof -
  assume n: "0 < n"
  have "fst (hashfile md5 contents new_hasher (int n)) =
        md5 (concat (updates (snd (hashfile md5 contents new_hasher (int n)))))"
    by (simp add: hashfile_def Let_def hexdigest_def)
  with n show ?thesis by (simp add: hashfile_blocks concat_blocks_of)
qed

text \<open>
  C8. With the default block size, \<^verbatim>\<open>_hashfile\<close> on a fresh MD5 object feeds the file
  to the hash object in consecutive blocks: their concatenation is the whole file, every
  block but the last has exactly 65536 bytes, no block is empty or longer than 65536
  bytes, and the returned hex digest is the MD5 digest of the entire contents. For a
  zero-byte file no block is fed and the digest is the one of the empty byte string.
\<close>

theorem hashfile_streams_whole_file:
  "fst (hashfile md5 contents new_hasher default_blocksize) = md5 contents
   \<and> concat (updates (snd (hashfile md5 contents new_hasher default_blocksize))) = contents
   \<and> (\<forall>b \<in> set (butlast (updates (snd (hashfile md5 contents new_hasher default_blocksize)))).
         length b = 65536)
   \<and> (\<forall>b \<in> set (updates (snd (hashfile md5 contents new_hasher default_blocksize))).
         0 < length b \<and> length b \<le> 65536)
   \<and> fst (hashfile md5 [] new_hasher default_blocksize) = md5 []
   \<and> updates (snd (hashfile md5 [] new_hasher default_blocksize)) = []"
proof -
  have bs: "default_blocksize = int 65536" by (simp add: default_blocksize_def)
  have pos: "0 < (65536::nat)" by simp
  have e: "blocks_of 65536 ([]::bytes) = []" by (simp add: blocks_of.simps [of _ "[]"])
  show ?thesis
    unfolding bs hashfile_digest [OF pos] hashfile_blocks [OF pos] concat_blocks_of [OF pos] e
    using blocks_of_full [of _ 65536 contents] blocks_of_nonempty [of _ 65536 contents]
    by blast
qed

theorem hashfile_streams_whole_file_witness:
  "fst (hashfile sim_digest (replicate 65537 0) new_hasher default_blocksize)
     = sim_digest (replicate 65537 0)
   \<and> updates (snd (hashfile sim_digest (replicate 65537 0) new_hasher default_blocksize))
     = [replicate 65536 0, [0]]
   \<and> concat [replicate 65536 0, [0::8 word]] = replicate 65537 0
   \<and> fst (hashfile sim_digest [] new_hasher default_blocksize)
     = ''00000000000000000000000000000000''"
proof -
  have one: "blocks_of 65536 [0::8 word] = [[0]]"
    by (simp add: blocks_of.simps [of 65536 "[0]"] blocks_of.simps [of 65536 "[]"])
  have b: "blocks_of 65536 (replicate 65537 (0::8 word)) = [replicate 65536 0, [0]]"
    by (simp add: blocks_of.simps [of 65536 "replicate 65537 0"] one)
  have u: "updates (snd (hashfile sim_digest (replicate 65537 0) new_hasher default_blocksize))
             = [replicate 65536 0, [0]]"
    using hashfile_blocks [of 65536 sim_digest "replicate 65537 0"] b
    by (simp add: default_blocksize_def)
  from hashfile_streams_whole_file [of sim_digest "replicate 65537 0"] u show ?thesis
    by (simp add: sim_digest_def hex_digit_def)
qed

subsection \<open>Both directions as one procedure\<close>

lemma local_md5_eq:
  "local_md5 E p w package =
     (case open_rb E w package of
        Inr afile \<Rightarrow> Inr (hashlib_md5 E afile)
      | Inl err \<Rightarrow>
          if str_in ''No such file'' (message err) \<and> type_param p = Get
          then Inr no_file else Inl err)"
  using hashfile_digest [of 65536 "hashlib_md5 E"]
  by (simp add: local_md5_def default_blocksize_def split: sum.splits)

lemma str_in_sublist: "str_in needle hay = sublist needle hay"
  by (induction hay) (auto simp: sublist_Cons_right)

lemma with_SCP_copy:
  "with_SCP E (copy_body E p) w =
     (case scp_open E w of
        (Some e, w1) \<Rightarrow> (Some e, [ScpOpen (Some e)], w1)
      | (None, w1) \<Rightarrow>
          (case copy_call E p w1 of (r, w2) \<Rightarrow>
             (case scp_close E w2 of
                (Some e', w3) \<Rightarrow> (Some e', [ScpOpen None, copy_event p r, ScpClose (Some e')], w3)
              | (None, w3) \<Rightarrow> (r, [ScpOpen None, copy_event p r, ScpClose None], w3))))"
  by (cases "type_param p")
     (simp_all add: with_SCP_def copy_body_def copy_call_def copy_event_def put_body_def
        get_body_def split: prod.splits option.splits)

lemma main_unfold:
  "main E p w =
     (case source_checksum E p w of
        Inl err \<Rightarrow> (Raised err, [source_event p (Inl err)], w)
      | Inr s \<Rightarrow>
          (case destination_checksum E p w of
             Inl err \<Rightarrow> (Raised err, [source_event p (Inr s), destination_event p (Inl err)], w)
           | Inr d \<Rightarrow>
               if d = no_file \<or> d \<noteq> s
               then
                 (case with_SCP E (copy_body E p) w of
                    (Some err, evs, w') \<Rightarrow>
                      (Raised err, [source_event p (Inr s), destination_event p (Inr d)] @ evs, w')
                  | (None, evs, w') \<Rightarrow>
                      (verdict p s (destination_checksum E p w'),
                       [source_event p (Inr s), destination_event p (Inr d)] @ evs
                         @ [destination_event p (destination_checksum E p w')], w'))
               else (ExitJson skip_results,
                     [source_event p (Inr s), destination_event p (Inr d)], w)))"
proof (cases "type_param p")
  case Put
  then show ?thesis
    by (simp add: main_def main_put_def Let_def source_checksum_def destination_checksum_def
          source_event_def destination_event_def copy_body_def verdict_def failure_message_def
          success_results_def pushed_results_def skip_results_def already_present_def
          local_file_of_def remote_file_of_def
          split: sum.splits option.splits prod.splits)
next
  case Get
  then show ?thesis
    by (auto simp add: main_def main_get_def Let_def source_checksum_def destination_checksum_def
          source_event_def destination_event_def copy_body_def verdict_def failure_message_def
          success_results_def retrieved_results_def skip_results_def already_present_def
          local_file_of_def remote_file_of_def
          split: sum.splits option.splits prod.splits)
qed


lemmas sim_defs = sim_env_def sim_open_rb_def sim_checksum_def sim_put_def sim_get_def
  faithful_def truncating_def basename_def rpc_no_such_file_def file_not_found_def
  permission_denied_def os_error_def sim_digest_def hex_digit_def
  put_params_def get_params_def odd_params_def local_only_def remote_only_def in_sync_def
  unreadable_local_def stale_remote_def

lemmas run_defs = main_def main_put_def main_get_def Let_def local_md5_eq remote_md5_def
  with_SCP_def put_body_def get_body_def no_file_def strip_def is_space_def
  none_strip_error_def transfer_failed_def already_present_def

lemmas word_defs = source_checksum_def destination_checksum_def source_event_def
  destination_event_def copy_event_def copy_call_def copy_body_def failure_message_def
  success_results_def verdict_def local_file_of_def remote_file_of_def transfer_attempted_def
  outcome_changed_def skip_results_def pushed_results_def retrieved_results_def

lemma with_SCP_events:
  "with_SCP E (copy_body E p) w = (r, evs, w') \<Longrightarrow>
     (\<exists>e. evs = [ScpOpen (Some e)]) \<or> (\<exists>x c. evs = [ScpOpen None, copy_event p x, ScpClose c])"
  by (auto simp: with_SCP_copy split: prod.splits option.splits)

lemma with_SCP_finished:
  "with_SCP E (copy_body E p) w = (None, evs, w') \<Longrightarrow>
     evs = [ScpOpen None, copy_event p None, ScpClose None]"
  by (auto simp: with_SCP_copy split: prod.splits option.splits)

lemma is_scp_event_simps [simp]:
  "\<not> is_scp_event (source_event p c)" "\<not> is_scp_event (destination_event p c)"
  "is_scp_event (copy_event p r)" "is_copy (copy_event p r)"
  "\<not> is_copy (source_event p c)" "\<not> is_copy (destination_event p c)"
  by (cases "type_param p"; simp add: source_event_def destination_event_def copy_event_def)+

subsection \<open>The decision and its consequences\<close>



lemma transfer_failed_embeds:
  "str_in l (transfer_failed l r)" "str_in r (transfer_failed l r)"
proof -
  let ?P = "''Transfer failed (different MD5 between local and remote) ''"
  have a: "transfer_failed l r = ?P @ l @ ('' | '' @ r)"
    by (simp add: transfer_failed_def)
  have b: "transfer_failed l r = (?P @ l @ '' | '') @ r @ []"
    by (simp add: transfer_failed_def)
  show "str_in l (transfer_failed l r)"
    unfolding str_in_sublist a by (rule sublist_appendI)
  show "str_in r (transfer_failed l r)"
    unfolding str_in_sublist b by (rule sublist_appendI)
qed

text \<open>
  C2. In either direction, when the \<^verbatim>\<open>with\<close> block has finished without raising and
  the destination's checksum, computed again in the world the copy left behind, differs
  from the source's checksum, the invocation ends in \<^verbatim>\<open>fail_json\<close>. The message is
  \<^verbatim>\<open>Transfer failed (different MD5 between local and remote) <local> | <remote>\<close>, so it
  contains both checksums, and \<open>changed\<close> is not reported as true.
\<close>

theorem mismatch_after_transfer_is_fatal:
  assumes "source_checksum E p w = Inr s" and "destination_checksum E p w = Inr d"
    and "d = no_file \<or> d \<noteq> s"
    and "with_SCP E (copy_body E p) w = (None, evs, w')"
    and "destination_checksum E p w' = Inr d'" and "d' \<noteq> s"
  shows "fst (main E p w) = FailJson (failure_message p s d')
     \<and> str_in s (failure_message p s d') \<and> str_in d' (failure_message p s d')
     \<and> \<not> outcome_changed (fst (main E p w))"
proof -
  have out: "fst (main E p w) = FailJson (failure_message p s d')"
    using assms by (auto simp: main_unfold verdict_def)
  have "str_in s (failure_message p s d')" and "str_in d' (failure_message p s d')"
    by (cases "type_param p"; simp add: failure_message_def transfer_failed_embeds)+
  with out show ?thesis
    by (simp add: outcome_changed_def)
qed



theorem mismatch_after_transfer_is_fatal_witness:
  "main (sim_env truncating None) put_params local_only =
     (FailJson ''Transfer failed (different MD5 between local and remote) 00000000000000000000000000000006 | 00000000000000000000000000000003'',
      [LocalMd5 ''/srv/a.tgz'' (Inr ''00000000000000000000000000000006''),
       RemoteMd5 ''/var/tmp/a.tgz'' (Inr ''no_file''), ScpOpen None,
       ScpPut ''/srv/a.tgz'' ''/var/tmp'' None, ScpClose None,
       RemoteMd5 ''/var/tmp/a.tgz'' (Inr ''00000000000000000000000000000003'')],
      \<lparr>local_fs = [(''/srv/a.tgz'', [1, 2, 3])], unreadable = [],
       remote_fs = [(''/var/tmp/a.tgz'', [1, 2])]\<rparr>)
   \<and> str_in ''00000000000000000000000000000006''
        (case fst (main (sim_env truncating None) put_params local_only) of FailJson m \<Rightarrow> m | _ \<Rightarrow> [])
   \<and> str_in ''00000000000000000000000000000003''
        (case fst (main (sim_env truncating None) put_params local_only) of FailJson m \<Rightarrow> m | _ \<Rightarrow> [])
   \<and> \<not> outcome_changed (fst (main (sim_env truncating None) put_params local_only))"
proof -
  let ?E = "sim_env truncating None"
  let ?w' = "\<lparr>local_fs = [(''/srv/a.tgz'', [1, 2, 3])], unreadable = [],
              remote_fs = [(''/var/tmp/a.tgz'', [1, 2])]\<rparr>"
  have s: "source_checksum ?E put_params local_only = Inr ''00000000000000000000000000000006''"
    by (simp add: word_defs sim_defs run_defs)
  have d: "destination_checksum ?E put_params local_only = Inr ''no_file''"
    by (simp add: word_defs sim_defs run_defs)
  have c: "''no_file'' = no_file \<or> ''no_file'' \<noteq> ''00000000000000000000000000000006''"
    by (simp add: no_file_def)
  have t: "with_SCP ?E (copy_body ?E put_params) local_only =
             (None, [ScpOpen None, ScpPut ''/srv/a.tgz'' ''/var/tmp'' None, ScpClose None], ?w')"
    by (simp add: word_defs sim_defs run_defs)
  have d': "destination_checksum ?E put_params ?w' = Inr ''00000000000000000000000000000003''"
    by (simp add: word_defs sim_defs run_defs)
  have ne: "''00000000000000000000000000000003'' \<noteq> ''00000000000000000000000000000006''"
    by simp
  have run: "main ?E put_params local_only =
     (FailJson ''Transfer failed (different MD5 between local and remote) 00000000000000000000000000000006 | 00000000000000000000000000000003'',
      [LocalMd5 ''/srv/a.tgz'' (Inr ''00000000000000000000000000000006''),
       RemoteMd5 ''/var/tmp/a.tgz'' (Inr ''no_file''), ScpOpen None,
       ScpPut ''/srv/a.tgz'' ''/var/tmp'' None, ScpClose None,
       RemoteMd5 ''/var/tmp/a.tgz'' (Inr ''00000000000000000000000000000003'')], ?w')"
    by (simp add: sim_defs run_defs)
  from mismatch_after_transfer_is_fatal [OF s d c t d' ne] run show ?thesis
    by (simp add: failure_message_def put_params_def transfer_failed_def)
qed

text \<open>
  C5. In either direction, when the local and the remote checksum are the same digest
  (not the sentinel), the invocation exits with \<open>changed = False\<close> and the message
  \<^verbatim>\<open>File already present, skipping the scp\<close>; no SCP session is entered and the world
  is left as it was.
\<close>

theorem matching_digests_skip:
  assumes "local_md5 E p w (local_file_of p) = Inr d"
    and "remote_md5 E p w (remote_file_of p) = Inr d"
    and "d \<noteq> no_file"
  shows "fst (main E p w) =
           ExitJson \<lparr>msg = ''File already present, skipping the scp'', changed = False,
                     failed = False\<rparr>
     \<and> \<not> transfer_attempted (fst (snd (main E p w)))
     \<and> snd (snd (main E p w)) = w"
proof -
  have "source_checksum E p w = Inr d" and "destination_checksum E p w = Inr d"
    using assms(1,2)
    by (cases "type_param p"; simp add: source_checksum_def destination_checksum_def)+
  with assms(3) show ?thesis
    by (simp add: main_unfold skip_results_def transfer_attempted_def)
qed

theorem matching_digests_skip_witness:
  "main (sim_env faithful None) put_params in_sync =
     (ExitJson \<lparr>msg = ''File already present, skipping the scp'', changed = False,
                failed = False\<rparr>,
      [LocalMd5 ''/srv/a.tgz'' (Inr ''00000000000000000000000000000006''),
       RemoteMd5 ''/var/tmp/a.tgz'' (Inr ''00000000000000000000000000000006'')], in_sync)
   \<and> fst (main (sim_env faithful None) get_params in_sync) =
       ExitJson \<lparr>msg = ''File already present, skipping the scp'', changed = False,
                 failed = False\<rparr>
   \<and> \<not> transfer_attempted (fst (snd (main (sim_env faithful None) get_params in_sync)))
   \<and> snd (snd (main (sim_env faithful None) get_params in_sync)) = in_sync"
proof -
  let ?E = "sim_env faithful None"
  have l: "local_md5 ?E get_params in_sync (local_file_of get_params)
             = Inr ''00000000000000000000000000000006''"
    by (simp add: word_defs sim_defs run_defs)
  have r: "remote_md5 ?E get_params in_sync (remote_file_of get_params)
             = Inr ''00000000000000000000000000000006''"
    by (simp add: word_defs sim_defs run_defs)
  have n: "''00000000000000000000000000000006'' \<noteq> no_file"
    by (simp add: no_file_def)
  have run: "main ?E put_params in_sync =
     (ExitJson \<lparr>msg = ''File already present, skipping the scp'', changed = False,
                failed = False\<rparr>,
      [LocalMd5 ''/srv/a.tgz'' (Inr ''00000000000000000000000000000006''),
       RemoteMd5 ''/var/tmp/a.tgz'' (Inr ''00000000000000000000000000000006'')], in_sync)"
    by (simp add: sim_defs run_defs)
  from matching_digests_skip [OF l r n] run show ?thesis
    by simp
qed

lemma main_source_raises:
  "source_checksum E p w = Inl err \<Longrightarrow> main E p w = (Raised err, [source_event p (Inl err)], w)"
  by (simp add: main_unfold)

lemma main_destination_raises:
  "source_checksum E p w = Inr s \<Longrightarrow> destination_checksum E p w = Inl err \<Longrightarrow>
   main E p w = (Raised err, [source_event p (Inr s), destination_event p (Inl err)], w)"
  by (simp add: main_unfold)

lemma main_skip:
  "source_checksum E p w = Inr s \<Longrightarrow> destination_checksum E p w = Inr s \<Longrightarrow> s \<noteq> no_file \<Longrightarrow>
   main E p w = (ExitJson skip_results, [source_event p (Inr s), destination_event p (Inr s)], w)"
  by (simp add: main_unfold)

lemma main_transfer_raises:
  "source_checksum E p w = Inr s \<Longrightarrow> destination_checksum E p w = Inr d \<Longrightarrow>
   d = no_file \<or> d \<noteq> s \<Longrightarrow> with_SCP E (copy_body E p) w = (Some err, evs, w') \<Longrightarrow>
   main E p w = (Raised err, [source_event p (Inr s), destination_event p (Inr d)] @ evs, w')"
  by (simp add: main_unfold)

lemma main_transfer_done:
  "source_checksum E p w = Inr s \<Longrightarrow> destination_checksum E p w = Inr d \<Longrightarrow>
   d = no_file \<or> d \<noteq> s \<Longrightarrow> with_SCP E (copy_body E p) w = (None, evs, w') \<Longrightarrow>
   main E p w = (verdict p s (destination_checksum E p w'),
                 [source_event p (Inr s), destination_event p (Inr d)] @ evs
                   @ [destination_event p (destination_checksum E p w')], w')"
  by (simp add: main_unfold)


subsection \<open>Transfer, verification and repetition\<close>

lemma main_copies_at_most_once: "length (filter is_copy (fst (snd (main E p w)))) \<le> 1"
proof (cases "source_checksum E p w")
  case (Inl err)
  then show ?thesis by (simp add: main_source_raises)
next
  case s: (Inr s)
  show ?thesis
  proof (cases "destination_checksum E p w")
    case (Inl err)
    with s show ?thesis by (simp add: main_destination_raises)
  next
    case d: (Inr d)
    show ?thesis
    proof (cases "d = no_file \<or> d \<noteq> s")
      case False
      then have "d = s" and "s \<noteq> no_file" by auto
      with s d show ?thesis by (simp add: main_skip)
    next
      case True
      obtain r evs w' where run: "with_SCP E (copy_body E p) w = (r, evs, w')"
        by (cases "with_SCP E (copy_body E p) w") auto
      from with_SCP_events [OF run] have "length (filter is_copy evs) \<le> 1" by auto
      with run s d True show ?thesis
        by (cases r) (simp_all add: main_transfer_done main_transfer_raises)
    qed
  qed
qed

lemma with_SCP_completes:
  "scp_open E w = (None, w1) \<Longrightarrow> copy_call E p w1 = (None, w2) \<Longrightarrow> scp_close E w2 = (None, w3) \<Longrightarrow>
   with_SCP E (copy_body E p) w = (None, [ScpOpen None, copy_event p None, ScpClose None], w3)"
  by (simp add: with_SCP_copy)



text \<open>
  C4 as written fails: the local file has digest \<open>d1\<close> and the device reports the remote
  file as missing, but a transport that loses the last byte leads to a recomputed remote
  checksum different from \<open>d1\<close> and to \<^verbatim>\<open>fail_json\<close>, and a transport that raises ends
  the invocation before any recomputation; \<open>changed\<close> is true in neither run.
\<close>

theorem first_put_lossy_or_raising_transport:
  "local_md5 (sim_env truncating None) put_params local_only ''/srv/a.tgz''
     = Inr ''00000000000000000000000000000006''
   \<and> get_checksum_information (sim_env truncating None) local_only ''/var/tmp/a.tgz''
     = Inl (rpc_no_such_file ''/var/tmp/a.tgz'')
   \<and> main (sim_env truncating None) put_params local_only =
     (FailJson ''Transfer failed (different MD5 between local and remote) 00000000000000000000000000000006 | 00000000000000000000000000000003'',
      [LocalMd5 ''/srv/a.tgz'' (Inr ''00000000000000000000000000000006''),
       RemoteMd5 ''/var/tmp/a.tgz'' (Inr ''no_file''), ScpOpen None,
       ScpPut ''/srv/a.tgz'' ''/var/tmp'' None, ScpClose None,
       RemoteMd5 ''/var/tmp/a.tgz'' (Inr ''00000000000000000000000000000003'')],
      \<lparr>local_fs = [(''/srv/a.tgz'', [1, 2, 3])], unreadable = [],
       remote_fs = [(''/var/tmp/a.tgz'', [1, 2])]\<rparr>)
   \<and> main (sim_env faithful (Some (Exn ''Connection lost''))) put_params local_only =
     (Raised (Exn ''Connection lost''),
      [LocalMd5 ''/srv/a.tgz'' (Inr ''00000000000000000000000000000006''),
       RemoteMd5 ''/var/tmp/a.tgz'' (Inr ''no_file''), ScpOpen None,
       ScpPut ''/srv/a.tgz'' ''/var/tmp'' (Some (Exn ''Connection lost'')), ScpClose None],
      local_only)"
  by (simp add: sim_defs run_defs)

text \<open>
  C4, amended. A \<^verbatim>\<open>put\<close> whose local file can be read (digest \<open>d1\<close>) and whose remote
  file the device reports as missing enters the SCP session. If the session opens, the
  \<^verbatim>\<open>put\<close> of the local file to the remote directory returns, the session closes, and
  the device then reports \<open>d1\<close> for the remote file, the invocation exits with
  \<open>changed = True\<close> and \<^verbatim>\<open>File pushed OK\<close>; its events are the two initial checksums, one
  SCP session with that one \<^verbatim>\<open>put\<close>, and one recomputation of the remote checksum, and
  it ends in the world the close left.
\<close>

theorem first_put_pushes:
  assumes "type_param p = Put"
    and "open_rb E w (local_file_of p) = Inr contents"
    and "get_checksum_information E w (remote_file_of p) = Inl err"
    and "str_in ''No such file or directory'' (message err)"
  shows "transfer_attempted (fst (snd (main E p w)))
     \<and> (scp_open E w = (None, w1)
          \<and> scp_put E w1 (local_file_of p) (remote_dir p) = (None, w2)
          \<and> scp_close E w2 = (None, w3)
          \<and> remote_md5 E p w3 (remote_file_of p) = Inr (hashlib_md5 E contents)
        \<longrightarrow> main E p w =
             (ExitJson \<lparr>msg = ''File pushed OK'', changed = True, failed = False\<rparr>,
              [LocalMd5 (local_file_of p) (Inr (hashlib_md5 E contents)),
               RemoteMd5 (remote_file_of p) (Inr no_file),
               ScpOpen None, ScpPut (local_file_of p) (remote_dir p) None, ScpClose None,
               RemoteMd5 (remote_file_of p) (Inr (hashlib_md5 E contents))],
              w3))"
proof
  have s: "source_checksum E p w = Inr (hashlib_md5 E contents)"
    using assms(1,2) by (simp add: source_checksum_def local_md5_eq)
  have d: "destination_checksum E p w = Inr no_file"
    using assms(1,3,4) by (simp add: destination_checksum_def remote_md5_def)
  have go: "no_file = no_file \<or> no_file \<noteq> hashlib_md5 E contents" by simp
  obtain x evs w' where t: "with_SCP E (copy_body E p) w = (x, evs, w')"
    by (cases "with_SCP E (copy_body E p) w") auto
  from with_SCP_events [OF t] have ne: "filter is_scp_event evs \<noteq> []" by auto
  show "transfer_attempted (fst (snd (main E p w)))"
  proof (cases x)
    case None
    from main_transfer_done [OF s d go t [unfolded None]] ne show ?thesis
      by (simp add: transfer_attempted_def)
  next
    case (Some e)
    from main_transfer_raises [OF s d go t [unfolded Some]] ne show ?thesis
      by (simp add: transfer_attempted_def)
  qed
  show "scp_open E w = (None, w1)
          \<and> scp_put E w1 (local_file_of p) (remote_dir p) = (None, w2)
          \<and> scp_close E w2 = (None, w3)
          \<and> remote_md5 E p w3 (remote_file_of p) = Inr (hashlib_md5 E contents)
        \<longrightarrow> main E p w =
             (ExitJson \<lparr>msg = ''File pushed OK'', changed = True, failed = False\<rparr>,
              [LocalMd5 (local_file_of p) (Inr (hashlib_md5 E contents)),
               RemoteMd5 (remote_file_of p) (Inr no_file),
               ScpOpen None, ScpPut (local_file_of p) (remote_dir p) None, ScpClose None,
               RemoteMd5 (remote_file_of p) (Inr (hashlib_md5 E contents))],
              w3)"
  proof
    assume a: "scp_open E w = (None, w1)
          \<and> scp_put E w1 (local_file_of p) (remote_dir p) = (None, w2)
          \<and> scp_close E w2 = (None, w3)
          \<and> remote_md5 E p w3 (remote_file_of p) = Inr (hashlib_md5 E contents)"
    then have o: "scp_open E w = (None, w1)" and c: "scp_close E w2 = (None, w3)" by auto
    from a assms(1) have k: "copy_call E p w1 = (None, w2)"
      by (simp add: copy_call_def)
    from a assms(1) have d': "destination_checksum E p w3 = Inr (hashlib_md5 E contents)"
      by (simp add: destination_checksum_def)
    from main_transfer_done [OF s d go with_SCP_completes [OF o k c]] d' assms(1)
    show "main E p w =
             (ExitJson \<lparr>msg = ''File pushed OK'', changed = True, failed = False\<rparr>,
              [LocalMd5 (local_file_of p) (Inr (hashlib_md5 E contents)),
               RemoteMd5 (remote_file_of p) (Inr no_file),
               ScpOpen None, ScpPut (local_file_of p) (remote_dir p) None, ScpClose None,
               RemoteMd5 (remote_file_of p) (Inr (hashlib_md5 E contents))],
              w3)"
      by (simp add: verdict_def success_results_def pushed_results_def
            source_event_def destination_event_def copy_event_def)
  qed
qed

theorem first_put_pushes_witness:
  "transfer_attempted (fst (snd (main (sim_env faithful None) put_params local_only)))
   \<and> main (sim_env faithful None) put_params local_only =
     (ExitJson \<lparr>msg = ''File pushed OK'', changed = True, failed = False\<rparr>,
      [LocalMd5 ''/srv/a.tgz'' (Inr ''00000000000000000000000000000006''),
       RemoteMd5 ''/var/tmp/a.tgz'' (Inr ''no_file''),
       ScpOpen None, ScpPut ''/srv/a.tgz'' ''/var/tmp'' None, ScpClose None,
       RemoteMd5 ''/var/tmp/a.tgz'' (Inr ''00000000000000000000000000000006'')],
      in_sync)"
proof -
  let ?E = "sim_env faithful None"
  have a1: "type_param put_params = Put" by (simp add: put_params_def)
  have a2: "open_rb ?E local_only (local_file_of put_params) = Inr [1, 2, 3]"
    by (simp add: word_defs sim_defs)
  have a3: "get_checksum_information ?E local_only (remote_file_of put_params)
              = Inl (rpc_no_such_file ''/var/tmp/a.tgz'')"
    by (simp add: word_defs sim_defs)
  have a4: "str_in ''No such file or directory'' (message (rpc_no_such_file ''/var/tmp/a.tgz''))"
    by (simp add: rpc_no_such_file_def)
  have o: "scp_open ?E local_only = (None, local_only)"
    by (simp add: sim_env_def)
  have k: "scp_put ?E local_only (local_file_of put_params) (remote_dir put_params)
             = (None, in_sync)"
    by (simp add: word_defs sim_defs)
  have x: "scp_close ?E in_sync = (None, in_sync)"
    by (simp add: sim_env_def)
  have a6: "remote_md5 ?E put_params in_sync (remote_file_of put_params)
              = Inr (hashlib_md5 ?E [1, 2, 3])"
    by (simp add: word_defs sim_defs run_defs)
  from first_put_pushes [OF a1 a2 a3 a4, of local_only in_sync in_sync] o k x a6
  show ?thesis
    by (simp add: word_defs sim_defs no_file_def)
qed

text \<open>
  C7 as written fails. With both sides already in sync the first \<^verbatim>\<open>put\<close> is a skip, not
  a transfer. With a transport that loses the last byte the first \<^verbatim>\<open>put\<close> ends in
  \<^verbatim>\<open>fail_json\<close>, and a second \<^verbatim>\<open>put\<close> in the world the first one left transfers
  again and fails again instead of skipping.
\<close>

theorem put_twice_not_transfer_then_skip:
  "main (sim_env faithful None) put_params in_sync =
     (ExitJson \<lparr>msg = ''File already present, skipping the scp'', changed = False,
                failed = False\<rparr>,
      [LocalMd5 ''/srv/a.tgz'' (Inr ''00000000000000000000000000000006''),
       RemoteMd5 ''/var/tmp/a.tgz'' (Inr ''00000000000000000000000000000006'')], in_sync)
   \<and> main (sim_env truncating None) put_params local_only =
     (FailJson ''Transfer failed (different MD5 between local and remote) 00000000000000000000000000000006 | 00000000000000000000000000000003'',
      [LocalMd5 ''/srv/a.tgz'' (Inr ''00000000000000000000000000000006''),
       RemoteMd5 ''/var/tmp/a.tgz'' (Inr ''no_file''), ScpOpen None,
       ScpPut ''/srv/a.tgz'' ''/var/tmp'' None, ScpClose None,
       RemoteMd5 ''/var/tmp/a.tgz'' (Inr ''00000000000000000000000000000003'')],
      \<lparr>local_fs = [(''/srv/a.tgz'', [1, 2, 3])], unreadable = [],
       remote_fs = [(''/var/tmp/a.tgz'', [1, 2])]\<rparr>)
   \<and> main (sim_env truncating None) put_params
       \<lparr>local_fs = [(''/srv/a.tgz'', [1, 2, 3])], unreadable = [],
        remote_fs = [(''/var/tmp/a.tgz'', [1, 2])]\<rparr> =
     (FailJson ''Transfer failed (different MD5 between local and remote) 00000000000000000000000000000006 | 00000000000000000000000000000003'',
      [LocalMd5 ''/srv/a.tgz'' (Inr ''00000000000000000000000000000006''),
       RemoteMd5 ''/var/tmp/a.tgz'' (Inr ''00000000000000000000000000000003''), ScpOpen None,
       ScpPut ''/srv/a.tgz'' ''/var/tmp'' None, ScpClose None,
       RemoteMd5 ''/var/tmp/a.tgz'' (Inr ''00000000000000000000000000000003'')],
      \<lparr>local_fs = [(''/srv/a.tgz'', [1, 2, 3])], unreadable = [],
       remote_fs = [(''/var/tmp/a.tgz'', [1, 2]), (''/var/tmp/a.tgz'', [1, 2])]\<rparr>)"
  by (simp add: sim_defs run_defs)

text \<open>
  C7, amended. Take a \<^verbatim>\<open>put\<close> whose local file can be read (digest \<open>d1\<close>, not the string
  \<^verbatim>\<open>no_file\<close>) and whose remote checksum is the sentinel or differs from \<open>d1\<close>. Suppose
  the session opens, the \<^verbatim>\<open>put\<close> of the local file to the remote directory returns,
  the session closes leaving world \<open>w3\<close>, the device then reports \<open>d1\<close> for the remote
  file, and the local file still reads the same in \<open>w3\<close>. Then the first run is a
  verified transfer (\<open>changed = True\<close>, \<^verbatim>\<open>File pushed OK\<close>) ending in \<open>w3\<close>, and a second
  run started in \<open>w3\<close> is a skip (\<open>changed = False\<close>,
  \<^verbatim>\<open>File already present, skipping the scp\<close>) that computes the two checksums only and
  leaves \<open>w3\<close> as it is.
\<close>

theorem put_twice_transfers_then_skips:
  assumes "type_param p = Put"
    and "open_rb E w (local_file_of p) = Inr contents"
    and "hashlib_md5 E contents \<noteq> no_file"
    and "remote_md5 E p w (remote_file_of p) = Inr d"
    and "d = no_file \<or> d \<noteq> hashlib_md5 E contents"
    and "scp_open E w = (None, w1)"
    and "scp_put E w1 (local_file_of p) (remote_dir p) = (None, w2)"
    and "scp_close E w2 = (None, w3)"
    and "remote_md5 E p w3 (remote_file_of p) = Inr (hashlib_md5 E contents)"
    and "open_rb E w3 (local_file_of p) = Inr contents"
  shows "main E p w =
           (ExitJson \<lparr>msg = ''File pushed OK'', changed = True, failed = False\<rparr>,
            [LocalMd5 (local_file_of p) (Inr (hashlib_md5 E contents)),
             RemoteMd5 (remote_file_of p) (Inr d),
             ScpOpen None, ScpPut (local_file_of p) (remote_dir p) None, ScpClose None,
             RemoteMd5 (remote_file_of p) (Inr (hashlib_md5 E contents))],
            w3)
     \<and> main E p w3 =
           (ExitJson \<lparr>msg = ''File already present, skipping the scp'', changed = False,
                      failed = False\<rparr>,
            [LocalMd5 (local_file_of p) (Inr (hashlib_md5 E contents)),
             RemoteMd5 (remote_file_of p) (Inr (hashlib_md5 E contents))],
            w3)"
proof
  have s: "source_checksum E p w = Inr (hashlib_md5 E contents)"
    using assms(1,2) by (simp add: source_checksum_def local_md5_eq)
  have d: "destination_checksum E p w = Inr d"
    using assms(1,4) by (simp add: destination_checksum_def)
  have k: "copy_call E p w1 = (None, w2)"
    using assms(1,7) by (simp add: copy_call_def)
  have s': "source_checksum E p w3 = Inr (hashlib_md5 E contents)"
    using assms(1,10) by (simp add: source_checksum_def local_md5_eq)
  have d': "destination_checksum E p w3 = Inr (hashlib_md5 E contents)"
    using assms(1,9) by (simp add: destination_checksum_def)
  from main_transfer_done [OF s d assms(5) with_SCP_completes [OF assms(6) k assms(8)]] d' assms(1)
  show "main E p w =
           (ExitJson \<lparr>msg = ''File pushed OK'', changed = True, failed = False\<rparr>,
            [LocalMd5 (local_file_of p) (Inr (hashlib_md5 E contents)),
             RemoteMd5 (remote_file_of p) (Inr d),
             ScpOpen None, ScpPut (local_file_of p) (remote_dir p) None, ScpClose None,
             RemoteMd5 (remote_file_of p) (Inr (hashlib_md5 E contents))],
            w3)"
    by (simp add: verdict_def success_results_def pushed_results_def
          source_event_def destination_event_def copy_event_def)
  from main_skip [OF s' d' assms(3)] assms(1)
  show "main E p w3 =
           (ExitJson \<lparr>msg = ''File already present, skipping the scp'', changed = False,
                      failed = False\<rparr>,
            [LocalMd5 (local_file_of p) (Inr (hashlib_md5 E contents)),
             RemoteMd5 (remote_file_of p) (Inr (hashlib_md5 E contents))],
            w3)"
    by (simp add: skip_results_def source_event_def destination_event_def)
qed

theorem put_twice_transfers_then_skips_witness:
  "main (sim_env faithful None) put_params local_only =
     (ExitJson \<lparr>msg = ''File pushed OK'', changed = True, failed = False\<rparr>,
      [LocalMd5 ''/srv/a.tgz'' (Inr ''00000000000000000000000000000006''),
       RemoteMd5 ''/var/tmp/a.tgz'' (Inr ''no_file''),
       ScpOpen None, ScpPut ''/srv/a.tgz'' ''/var/tmp'' None, ScpClose None,
       RemoteMd5 ''/var/tmp/a.tgz'' (Inr ''00000000000000000000000000000006'')],
      in_sync)
   \<and> main (sim_env faithful None) put_params in_sync =
     (ExitJson \<lparr>msg = ''File already present, skipping the scp'', changed = False,
                failed = False\<rparr>,
      [LocalMd5 ''/srv/a.tgz'' (Inr ''00000000000000000000000000000006''),
       RemoteMd5 ''/var/tmp/a.tgz'' (Inr ''00000000000000000000000000000006'')],
      in_sync)"
proof -
  let ?E = "sim_env faithful None"
  have a1: "type_param put_params = Put" by (simp add: put_params_def)
  have a2: "open_rb ?E local_only (local_file_of put_params) = Inr [1, 2, 3]"
    by (simp add: word_defs sim_defs)
  have a3: "hashlib_md5 ?E [1, 2, 3] \<noteq> no_file"
    by (simp add: sim_defs no_file_def)
  have a4: "remote_md5 ?E put_params local_only (remote_file_of put_params) = Inr no_file"
    by (simp add: word_defs sim_defs run_defs)
  have a5: "no_file = no_file \<or> no_file \<noteq> hashlib_md5 ?E [1, 2, 3]" by simp
  have a6: "scp_open ?E local_only = (None, local_only)"
    by (simp add: sim_env_def)
  have a7: "scp_put ?E local_only (local_file_of put_params) (remote_dir put_params)
              = (None, in_sync)"
    by (simp add: word_defs sim_defs)
  have a8: "scp_close ?E in_sync = (None, in_sync)"
    by (simp add: sim_env_def)
  have a9: "remote_md5 ?E put_params in_sync (remote_file_of put_params)
              = Inr (hashlib_md5 ?E [1, 2, 3])"
    by (simp add: word_defs sim_defs run_defs)
  have a10: "open_rb ?E in_sync (local_file_of put_params) = Inr [1, 2, 3]"
    by (simp add: word_defs sim_defs)
  from put_twice_transfers_then_skips [OF a1 a2 a3 a4 a5 a6 a7 a8 a9 a10] show ?thesis
    by (simp add: word_defs sim_defs no_file_def)
qed

subsection \<open>The SCP session\<close>

lemma main_scp_events:
  "filter is_scp_event (fst (snd (main E p w))) = []
   \<or> (\<exists>r evs w'. with_SCP E (copy_body E p) w = (r, evs, w')
         \<and> filter is_scp_event (fst (snd (main E p w))) = evs
         \<and> snd (snd (main E p w)) = w'
         \<and> (r \<noteq> None \<longrightarrow> fst (main E p w) = Raised (the r)))"
proof (cases "source_checksum E p w")
  case (Inl err)
  then show ?thesis by (simp add: main_source_raises)
next
  case s: (Inr s)
  show ?thesis
  proof (cases "destination_checksum E p w")
    case (Inl err)
    with s show ?thesis by (simp add: main_destination_raises)
  next
    case d: (Inr d)
    show ?thesis
    proof (cases "d = no_file \<or> d \<noteq> s")
      case False
      then have "d = s" and "s \<noteq> no_file" by auto
      with s d show ?thesis by (simp add: main_skip)
    next
      case True
      obtain r evs w' where run: "with_SCP E (copy_body E p) w = (r, evs, w')"
        by (cases "with_SCP E (copy_body E p) w") auto
      from with_SCP_events [OF run] have "filter is_scp_event evs = evs" by auto
      with run s d True show ?thesis
        by (cases r) (simp_all add: main_transfer_done main_transfer_raises)
    qed
  qed
qed

text \<open>
  C9. The SCP events of every invocation form a scoped session: either there are none,
  or \<^verbatim>\<open>__enter__\<close> failed and nothing else happened, or \<^verbatim>\<open>__enter__\<close> succeeded, the
  copy followed at once, and \<^verbatim>\<open>__exit__\<close> followed the copy. In particular, when the
  transfer is decided and the session opens, \<^verbatim>\<open>__exit__\<close> is called after the copy
  whatever the copy returned (also when it raised), and the run ends in the world that
  \<^verbatim>\<open>__exit__\<close> left.
\<close>

theorem scp_session_is_scoped:
  "session_scoped (filter is_scp_event (fst (snd (main E p w))))
   \<and> (source_checksum E p w = Inr s \<and> destination_checksum E p w = Inr d
        \<and> (d = no_file \<or> d \<noteq> s)
        \<and> scp_open E w = (None, w1) \<and> copy_call E p w1 = (r, w2) \<and> scp_close E w2 = (c, w3)
      \<longrightarrow> filter is_scp_event (fst (snd (main E p w))) = [ScpOpen None, copy_event p r, ScpClose c]
          \<and> snd (snd (main E p w)) = w3
          \<and> (r \<noteq> None \<or> c \<noteq> None \<longrightarrow> (\<exists>e. fst (main E p w) = Raised e)))"
proof
  from main_scp_events [of E p w]
  show "session_scoped (filter is_scp_event (fst (snd (main E p w))))"
  proof
    assume "filter is_scp_event (fst (snd (main E p w))) = []"
    then show ?thesis by simp
  next
    assume "\<exists>r evs w'. with_SCP E (copy_body E p) w = (r, evs, w')
         \<and> filter is_scp_event (fst (snd (main E p w))) = evs
         \<and> snd (snd (main E p w)) = w'
         \<and> (r \<noteq> None \<longrightarrow> fst (main E p w) = Raised (the r))"
    then obtain r evs w' where run: "with_SCP E (copy_body E p) w = (r, evs, w')"
      and evs: "filter is_scp_event (fst (snd (main E p w))) = evs"
      by blast
    from with_SCP_events [OF run] show ?thesis
      unfolding evs by auto
  qed
next
  show "source_checksum E p w = Inr s \<and> destination_checksum E p w = Inr d
        \<and> (d = no_file \<or> d \<noteq> s)
        \<and> scp_open E w = (None, w1) \<and> copy_call E p w1 = (r, w2) \<and> scp_close E w2 = (c, w3)
      \<longrightarrow> filter is_scp_event (fst (snd (main E p w))) = [ScpOpen None, copy_event p r, ScpClose c]
          \<and> snd (snd (main E p w)) = w3
          \<and> (r \<noteq> None \<or> c \<noteq> None \<longrightarrow> (\<exists>e. fst (main E p w) = Raised e))"
  proof
    assume a: "source_checksum E p w = Inr s \<and> destination_checksum E p w = Inr d
        \<and> (d = no_file \<or> d \<noteq> s)
        \<and> scp_open E w = (None, w1) \<and> copy_call E p w1 = (r, w2) \<and> scp_close E w2 = (c, w3)"
    then have s: "source_checksum E p w = Inr s" and d: "destination_checksum E p w = Inr d"
      and go: "d = no_file \<or> d \<noteq> s" by auto
    from a have t: "with_SCP E (copy_body E p) w =
        (case c of Some e' \<Rightarrow> Some e' | None \<Rightarrow> r, [ScpOpen None, copy_event p r, ScpClose c], w3)"
      by (cases c) (simp_all add: with_SCP_copy)
    show "filter is_scp_event (fst (snd (main E p w))) = [ScpOpen None, copy_event p r, ScpClose c]
          \<and> snd (snd (main E p w)) = w3
          \<and> (r \<noteq> None \<or> c \<noteq> None \<longrightarrow> (\<exists>e. fst (main E p w) = Raised e))"
    proof (cases "case c of Some e' \<Rightarrow> Some e' | None \<Rightarrow> r")
      case None
      then have "r = None" and "c = None" by (auto split: option.splits)
      with main_transfer_done [OF s d go t [unfolded None]] show ?thesis by simp
    next
      case (Some err)
      with main_transfer_raises [OF s d go t [unfolded Some]] show ?thesis by simp
    qed
  qed
qed

theorem scp_session_is_scoped_witness:
  "main (sim_env faithful (Some (Exn ''Connection lost''))) put_params local_only =
     (Raised (Exn ''Connection lost''),
      [LocalMd5 ''/srv/a.tgz'' (Inr ''00000000000000000000000000000006''),
       RemoteMd5 ''/var/tmp/a.tgz'' (Inr ''no_file''),
       ScpOpen None, ScpPut ''/srv/a.tgz'' ''/var/tmp'' (Some (Exn ''Connection lost'')),
       ScpClose None],
      local_only)
   \<and> session_scoped (filter is_scp_event
         (fst (snd (main (sim_env faithful (Some (Exn ''Connection lost''))) put_params local_only))))
   \<and> filter is_scp_event
         (fst (snd (main (sim_env faithful (Some (Exn ''Connection lost''))) put_params local_only)))
       = [ScpOpen None, ScpPut ''/srv/a.tgz'' ''/var/tmp'' (Some (Exn ''Connection lost'')),
          ScpClose None]"
proof -
  let ?E = "sim_env faithful (Some (Exn ''Connection lost''))"
  have s: "source_checksum ?E put_params local_only = Inr ''00000000000000000000000000000006''"
    by (simp add: word_defs sim_defs run_defs)
  have d: "destination_checksum ?E put_params local_only = Inr ''no_file''"
    by (simp add: word_defs sim_defs run_defs)
  have c: "''no_file'' = no_file \<or> ''no_file'' \<noteq> ''00000000000000000000000000000006''"
    by (simp add: no_file_def)
  have o: "scp_open ?E local_only = (None, local_only)"
    by (simp add: sim_env_def)
  have k: "copy_call ?E put_params local_only = (Some (Exn ''Connection lost''), local_only)"
    by (simp add: word_defs sim_defs)
  have x: "scp_close ?E local_only = (None, local_only)"
    by (simp add: sim_env_def)
  have run: "main ?E put_params local_only =
     (Raised (Exn ''Connection lost''),
      [LocalMd5 ''/srv/a.tgz'' (Inr ''00000000000000000000000000000006''),
       RemoteMd5 ''/var/tmp/a.tgz'' (Inr ''no_file''),
       ScpOpen None, ScpPut ''/srv/a.tgz'' ''/var/tmp'' (Some (Exn ''Connection lost'')),
       ScpClose None],
      local_only)"
    by (simp add: sim_defs run_defs)
  from scp_session_is_scoped [of ?E put_params local_only "''00000000000000000000000000000006''"
      "''no_file''" local_only "Some (Exn ''Connection lost'')" local_only None local_only]
    s d c o k x run
  show ?thesis
    by (simp add: copy_event_def put_params_def local_file_of_def)
qed

subsection \<open>The sentinel\<close>

lemma file_not_found_text: "str_in ''No such file'' (message (file_not_found path))"
  by (simp add: file_not_found_def os_error_def)

text \<open>
  C3, as the code has it. When opening or reading the local file raises, \<^verbatim>\<open>local_md5\<close>
  returns the sentinel exactly when the text of the exception contains
  \<^verbatim>\<open>No such file\<close> and the direction is \<^verbatim>\<open>get\<close>; when the RPC raises, \<^verbatim>\<open>remote_md5\<close>
  returns the sentinel exactly when the text contains \<^verbatim>\<open>No such file or directory\<close>
  and the direction is \<^verbatim>\<open>put\<close>. Every other exception is raised again, and a reply
  without a checksum element raises too. In particular the operating system's
  file-not-found error gives the sentinel for \<^verbatim>\<open>get\<close> and is raised again for \<^verbatim>\<open>put\<close>.
\<close>

theorem sentinel_iff_text_and_direction:
  "(open_rb E w package = Inl err \<longrightarrow>
      local_md5 E p w package =
        (if str_in ''No such file'' (message err) \<and> type_param p = Get
         then Inr no_file else Inl err))
   \<and> (get_checksum_information E w remote_file = Inl err \<longrightarrow>
      remote_md5 E p w remote_file =
        (if str_in ''No such file or directory'' (message err) \<and> type_param p = Put
         then Inr no_file else Inl err))
   \<and> (get_checksum_information E w remote_file = Inr None \<longrightarrow>
      remote_md5 E p w remote_file = Inl none_strip_error)
   \<and> (open_rb E w package = Inl (file_not_found package) \<longrightarrow>
      local_md5 E p w package =
        (if type_param p = Get then Inr no_file else Inl (file_not_found package)))"
proof -
  have n: "\<not> str_in ''No such file or directory'' (message none_strip_error)"
    by (simp add: none_strip_error_def)
  show ?thesis
    using n file_not_found_text [of package]
    by (simp add: local_md5_eq remote_md5_def)
qed

theorem sentinel_iff_text_and_direction_witness:
  "local_md5 (sim_env faithful None) get_params remote_only ''/srv/a.tgz'' = Inr ''no_file''
   \<and> local_md5 (sim_env faithful None) put_params remote_only ''/srv/a.tgz''
       = Inl (Exn (''[Errno 2] No such file or directory: '' @ [CHR 0x27] @ ''/srv/a.tgz'' @ [CHR 0x27]))
   \<and> remote_md5 (sim_env faithful None) put_params local_only ''/var/tmp/a.tgz'' = Inr ''no_file''
   \<and> remote_md5 (sim_env faithful None) get_params local_only ''/var/tmp/a.tgz''
       = Inl (Exn ''/var/tmp/a.tgz: No such file or directory'')"
proof -
  let ?E = "sim_env faithful None"
  have o: "open_rb ?E remote_only ''/srv/a.tgz'' = Inl (file_not_found ''/srv/a.tgz'')"
    by (simp add: sim_defs)
  have g: "get_checksum_information ?E local_only ''/var/tmp/a.tgz''
             = Inl (rpc_no_such_file ''/var/tmp/a.tgz'')"
    by (simp add: sim_defs)
  from sentinel_iff_text_and_direction [of ?E remote_only "''/srv/a.tgz''"
         "file_not_found ''/srv/a.tgz''" get_params "''/var/tmp/a.tgz''"]
       sentinel_iff_text_and_direction [of ?E remote_only "''/srv/a.tgz''"
         "file_not_found ''/srv/a.tgz''" put_params "''/var/tmp/a.tgz''"]
       sentinel_iff_text_and_direction [of ?E local_only "''/srv/a.tgz''"
         "rpc_no_such_file ''/var/tmp/a.tgz''" put_params "''/var/tmp/a.tgz''"]
       sentinel_iff_text_and_direction [of ?E local_only "''/srv/a.tgz''"
         "rpc_no_such_file ''/var/tmp/a.tgz''" get_params "''/var/tmp/a.tgz''"]
       o g
  show ?thesis
    by (simp add: get_params_def put_params_def no_file_def file_not_found_def os_error_def
          rpc_no_such_file_def)
qed

text \<open>
  C3 as written fails: a local file that exists but cannot be read, under a
  directory named \<^verbatim>\<open>No such file\<close>, raises \<^verbatim>\<open>Permission denied\<close>, which is not the
  file-not-found error; with direction \<^verbatim>\<open>get\<close> the module nevertheless returns the
  sentinel instead of raising.
\<close>

theorem permission_denied_taken_for_absent:
  "map_of (local_fs unreadable_local) ''/tmp/No such file/x'' = Some [7]
   \<and> open_rb (sim_env faithful None) unreadable_local ''/tmp/No such file/x''
       = Inl (permission_denied ''/tmp/No such file/x'')
   \<and> message (permission_denied ''/tmp/No such file/x'')
       = ''[Errno 13] Permission denied: '' @ [CHR 0x27] @ ''/tmp/No such file/x'' @ [CHR 0x27]
   \<and> permission_denied ''/tmp/No such file/x'' \<noteq> file_not_found ''/tmp/No such file/x''
   \<and> type_param odd_params = Get
   \<and> local_file_of odd_params = ''/tmp/No such file/x''
   \<and> local_md5 (sim_env faithful None) odd_params unreadable_local ''/tmp/No such file/x''
       = Inr ''no_file''"
  by (simp add: sim_defs word_defs run_defs)

text \<open>
  C10. The sentinel never stands for the source. With direction \<^verbatim>\<open>put\<close>, an exception
  while reading the local file is raised again by \<^verbatim>\<open>local_md5\<close>, whatever its text, and
  a local checksum that is returned is the digest of the file's contents; with direction
  \<^verbatim>\<open>get\<close>, an exception of the RPC is raised again by \<^verbatim>\<open>remote_md5\<close>, and a remote
  checksum that is returned is the stripped text the device sent. So the source's
  checksum equals the sentinel string only if a genuine digest does: never, when no
  digest is the string \<^verbatim>\<open>no_file\<close>. An invocation
  whose destination checksum is the sentinel never ends in the skip result, and one that
  does end in the skip result has neither checksum equal to the sentinel.
\<close>

theorem sentinel_never_for_source:
  "(type_param p = Put \<and> open_rb E w (local_file_of p) = Inl err \<longrightarrow>
      source_checksum E p w = Inl err)
   \<and> (type_param p = Get \<and> get_checksum_information E w (remote_file_of p) = Inl err \<longrightarrow>
      source_checksum E p w = Inl err)
   \<and> (type_param p = Put \<and> source_checksum E p w = Inr s \<longrightarrow>
      (\<exists>contents. open_rb E w (local_file_of p) = Inr contents \<and> s = hashlib_md5 E contents))
   \<and> (type_param p = Get \<and> source_checksum E p w = Inr s \<longrightarrow>
      (\<exists>text. get_checksum_information E w (remote_file_of p) = Inr (Some text)
          \<and> s = strip text))
   \<and> (type_param p = Put \<and> (\<forall>contents. hashlib_md5 E contents \<noteq> no_file) \<longrightarrow>
      source_checksum E p w \<noteq> Inr no_file)
   \<and> (type_param p = Get
        \<and> (\<forall>text. get_checksum_information E w (remote_file_of p) = Inr (Some text) \<longrightarrow>
               strip text \<noteq> no_file) \<longrightarrow>
      source_checksum E p w \<noteq> Inr no_file)
   \<and> (destination_checksum E p w = Inr no_file \<longrightarrow> fst (main E p w) \<noteq> ExitJson skip_results)
   \<and> (fst (main E p w) = ExitJson skip_results \<longrightarrow>
      source_checksum E p w \<noteq> Inr no_file \<and> destination_checksum E p w \<noteq> Inr no_file
      \<and> source_checksum E p w = destination_checksum E p w)"
proof -
  have a: "type_param p = Put \<and> open_rb E w (local_file_of p) = Inl err \<longrightarrow>
      source_checksum E p w = Inl err"
    by (simp add: source_checksum_def local_md5_eq)
  have b: "type_param p = Get \<and> get_checksum_information E w (remote_file_of p) = Inl err \<longrightarrow>
      source_checksum E p w = Inl err"
    by (simp add: source_checksum_def remote_md5_def)
  have c: "type_param p = Put \<and> source_checksum E p w = Inr s \<longrightarrow>
      (\<exists>contents. open_rb E w (local_file_of p) = Inr contents \<and> s = hashlib_md5 E contents)"
    by (auto simp: source_checksum_def local_md5_eq split: sum.splits)
  have d: "type_param p = Get \<and> source_checksum E p w = Inr s \<longrightarrow>
      (\<exists>text. get_checksum_information E w (remote_file_of p) = Inr (Some text)
          \<and> s = strip text)"
    by (auto simp: source_checksum_def remote_md5_def split: sum.splits option.splits if_splits)
  have skip: "source_checksum E p w \<noteq> Inr no_file \<and> destination_checksum E p w \<noteq> Inr no_file
      \<and> source_checksum E p w = destination_checksum E p w"
    if out: "fst (main E p w) = ExitJson skip_results"
  proof (cases "source_checksum E p w")
    case (Inl e)
    from main_source_raises [OF Inl] out show ?thesis by simp
  next
    case s: (Inr s')
    show ?thesis
    proof (cases "destination_checksum E p w")
      case (Inl e)
      from main_destination_raises [OF s Inl] out show ?thesis by simp
    next
      case d: (Inr d')
      show ?thesis
      proof (cases "d' = no_file \<or> d' \<noteq> s'")
        case False
        with s d show ?thesis by auto
      next
        case True
        obtain x evs w1 where t: "with_SCP E (copy_body E p) w = (x, evs, w1)"
          by (cases "with_SCP E (copy_body E p) w") auto
        show ?thesis
        proof (cases x)
          case (Some e)
          from main_transfer_raises [OF s d True t [unfolded Some]] out show ?thesis by simp
        next
          case None
          from main_transfer_done [OF s d True t [unfolded None]] out
          have "verdict p s' (destination_checksum E p w1) = ExitJson skip_results" by simp
          then show ?thesis
            by (cases "type_param p")
               (auto simp: verdict_def success_results_def pushed_results_def
                  retrieved_results_def skip_results_def split: sum.splits if_splits)
        qed
      qed
    qed
  qed
  from skip have e: "destination_checksum E p w = Inr no_file \<longrightarrow>
      fst (main E p w) \<noteq> ExitJson skip_results"
    by blast
  have f: "type_param p = Put \<and> (\<forall>contents. hashlib_md5 E contents \<noteq> no_file) \<longrightarrow>
      source_checksum E p w \<noteq> Inr no_file"
    by (auto simp: source_checksum_def local_md5_eq split: sum.splits)
  have g: "type_param p = Get
        \<and> (\<forall>text. get_checksum_information E w (remote_file_of p) = Inr (Some text) \<longrightarrow>
               strip text \<noteq> no_file) \<longrightarrow>
      source_checksum E p w \<noteq> Inr no_file"
    by (auto simp: source_checksum_def remote_md5_def split: sum.splits option.splits)
  from a b c d e f g skip show ?thesis by blast
qed

theorem sentinel_never_for_source_witness:
  "source_checksum (sim_env faithful None) put_params remote_only
     = Inl (file_not_found ''/srv/a.tgz'')
   \<and> source_checksum (sim_env faithful None) get_params local_only
     = Inl (rpc_no_such_file ''/var/tmp/a.tgz'')
   \<and> source_checksum (sim_env faithful None) put_params local_only
     = Inr ''00000000000000000000000000000006''
   \<and> source_checksum (sim_env faithful None) get_params remote_only
     = Inr ''00000000000000000000000000000006''
   \<and> destination_checksum (sim_env faithful None) put_params local_only = Inr no_file
   \<and> fst (main (sim_env faithful None) put_params local_only) \<noteq> ExitJson skip_results
   \<and> fst (main (sim_env faithful None) put_params in_sync) = ExitJson skip_results
   \<and> source_checksum (sim_env faithful None) put_params in_sync \<noteq> Inr no_file
   \<and> destination_checksum (sim_env faithful None) put_params in_sync \<noteq> Inr no_file"
proof -
  let ?E = "sim_env faithful None"
  have p: "type_param put_params = Put" and g: "type_param get_params = Get"
    by (simp_all add: put_params_def get_params_def)
  have o1: "open_rb ?E remote_only (local_file_of put_params) = Inl (file_not_found ''/srv/a.tgz'')"
    by (simp add: word_defs sim_defs)
  have o2: "get_checksum_information ?E local_only (remote_file_of get_params)
              = Inl (rpc_no_such_file ''/var/tmp/a.tgz'')"
    by (simp add: word_defs sim_defs)
  have s3: "source_checksum ?E put_params local_only = Inr ''00000000000000000000000000000006''"
    by (simp add: word_defs sim_defs run_defs)
  have s4: "source_checksum ?E get_params remote_only = Inr ''00000000000000000000000000000006''"
    by (simp add: word_defs sim_defs run_defs)
  have d5: "destination_checksum ?E put_params local_only = Inr no_file"
    by (simp add: word_defs sim_defs run_defs)
  have m6: "fst (main ?E put_params in_sync) = ExitJson skip_results"
    by (simp add: sim_defs run_defs skip_results_def)
  have h7: "\<forall>contents. hashlib_md5 ?E contents \<noteq> no_file"
  proof
    fix contents
    have "length (hashlib_md5 ?E contents) = 32"
      by (simp add: sim_env_def sim_digest_def)
    then show "hashlib_md5 ?E contents \<noteq> no_file"
      by (auto simp: no_file_def)
  qed
  have h8: "\<forall>text. get_checksum_information ?E remote_only (remote_file_of get_params)
              = Inr (Some text) \<longrightarrow> strip text \<noteq> no_file"
    by (simp add: word_defs sim_defs run_defs)
  from sentinel_never_for_source [of put_params ?E remote_only "file_not_found ''/srv/a.tgz''"]
       sentinel_never_for_source [of get_params ?E local_only "rpc_no_such_file ''/var/tmp/a.tgz''"]
       sentinel_never_for_source [of put_params ?E local_only]
       sentinel_never_for_source [of put_params ?E in_sync]
       sentinel_never_for_source [of get_params ?E remote_only]
       p g o1 o2 s3 s4 d5 m6 h7 h8
  show ?thesis
    by simp
qed

end
